theory Spec2Isabelle
  imports Main
begin

section \<open>Data of the program\<close>

text \<open>
  The two structs of \<^verbatim>\<open>main.go\<close>.  Both are (de)serialised by \<^verbatim>\<open>encoding/json\<close>
  under the lower-case keys given by their struct tags.
\<close>

record URLRequest =
  URL :: string

record Response =
  Success :: bool
  Message :: string

section \<open>JSON values, encoding and decoding\<close>

text \<open>
  JSON documents are handled at the level of their syntax tree.  An object keeps its
  members in the order of the text, with duplicates, because the decoder visits them
  one after the other.
\<close>

datatype json =
    JNull
  | JBool bool
  | JNumber string
  | JString string
  | JArray "json list"
  | JObject "(string \<times> json) list"

text \<open>
  What the decoder finds in a request body: text from which no JSON value can be read
  (a syntax error, or no text at all), or a first JSON value.  One call of \<^verbatim>\<open>Decode\<close>
  reads one value; what follows it in the body is not looked at.
\<close>

datatype body = Malformed | Document json

datatype decode_error = SyntaxError | UnmarshalTypeError

text \<open>
  \<^verbatim>\<open>json.NewEncoder(w).Encode(Response{...})\<close>: a struct with the tags
  \<^verbatim>\<open>json:"success"\<close> and \<^verbatim>\<open>json:"message"\<close> becomes an object of these two members.
\<close>

definition encode_Response :: "Response \<Rightarrow> json" where
  "encode_Response resp =
     JObject [(''success'', JBool (Success resp)), (''message'', JString (Message resp))]"

text \<open>
  Member names are matched with the field name \<^verbatim>\<open>url\<close> exactly or, failing that,
  under case folding; on a name made of the letters u, r, l that is equality of the
  upper-cased ASCII text.
\<close>

definition asciiUpper :: "char \<Rightarrow> char" where
  "asciiUpper c =
     (case map_of (zip ''abcdefghijklmnopqrstuvwxyz'' ''ABCDEFGHIJKLMNOPQRSTUVWXYZ'') c of
        Some u \<Rightarrow> u
      | None \<Rightarrow> c)"

definition foldName :: "string \<Rightarrow> string" where
  "foldName key = map asciiUpper key"

definition matches_url_field :: "string \<Rightarrow> bool" where
  "matches_url_field key = (key = ''url'' \<or> foldName key = foldName ''url'')"

text \<open>
  The decoder's state while it fills a \<^verbatim>\<open>URLRequest\<close>: the struct so far and the first
  type error met (decoding goes on after a type error, and the first one is returned at
  the end).
\<close>

type_synonym decode_state = "URLRequest \<times> decode_error option"

fun saveError :: "decode_error \<Rightarrow> decode_state \<Rightarrow> decode_state" where
  "saveError e (req, None) = (req, Some e)"
| "saveError e (req, Some e0) = (req, Some e0)"

text \<open>
  Storing a JSON value into the string field: a string is assigned, \<^verbatim>\<open>null\<close> has no
  effect on a Go string, every other value is a type error.
\<close>

fun store_URL :: "json \<Rightarrow> decode_state \<Rightarrow> decode_state" where
  "store_URL (JString s) (req, err) = (req\<lparr>URL := s\<rparr>, err)"
| "store_URL JNull st = st"
| "store_URL (JBool b) st = saveError UnmarshalTypeError st"
| "store_URL (JNumber n) st = saveError UnmarshalTypeError st"
| "store_URL (JArray vs) st = saveError UnmarshalTypeError st"
| "store_URL (JObject kvs) st = saveError UnmarshalTypeError st"

text \<open>The members of an object, in order; members of other names are skipped.\<close>

fun object_members :: "(string \<times> json) list \<Rightarrow> decode_state \<Rightarrow> decode_state" where
  "object_members [] st = st"
| "object_members ((key, v) # kvs) st =
     object_members kvs (if matches_url_field key then store_URL v st else st)"

text \<open>
  A value decoded into the struct: an object is walked member by member, \<^verbatim>\<open>null\<close>
  leaves the struct as it is, any other value is a type error.
\<close>

fun unmarshal :: "json \<Rightarrow> decode_state \<Rightarrow> decode_state" where
  "unmarshal (JObject kvs) st = object_members kvs st"
| "unmarshal JNull st = st"
| "unmarshal (JBool b) st = saveError UnmarshalTypeError st"
| "unmarshal (JNumber n) st = saveError UnmarshalTypeError st"
| "unmarshal (JString s) st = saveError UnmarshalTypeError st"
| "unmarshal (JArray vs) st = saveError UnmarshalTypeError st"

text \<open>
  \<^verbatim>\<open>json.NewDecoder(r.Body).Decode(&req)\<close>: the error (\<open>None\<close> is Go's \<^verbatim>\<open>nil\<close>) and
  the struct after the call.
\<close>

definition Decode :: "body \<Rightarrow> URLRequest \<Rightarrow> decode_error option \<times> URLRequest" where
  "Decode b req =
     (case b of
        Malformed \<Rightarrow> (Some SyntaxError, req)
      | Document v \<Rightarrow> (case unmarshal v (req, None) of (req', err) \<Rightarrow> (err, req')))"

section \<open>Strings\<close>

fun HasPrefix :: "string \<Rightarrow> string \<Rightarrow> bool" where
  "HasPrefix s [] = True"
| "HasPrefix [] (p # ps) = False"
| "HasPrefix (c # cs) (p # ps) = (c = p \<and> HasPrefix cs ps)"

text \<open>\<^verbatim>\<open>strings.Contains(s, substr)\<close>.\<close>

fun Contains :: "string \<Rightarrow> string \<Rightarrow> bool" where
  "Contains [] substr = (substr = [])"
| "Contains (c # cs) substr = (HasPrefix (c # cs) substr \<or> Contains cs substr)"

definition nl :: string where
  "nl = [CHR 0x0A]"

definition tab :: string where
  "tab = [CHR 0x09]"

section \<open>External processes\<close>

text \<open>
  A command is its name followed by its arguments.  The operating system is an oracle
  that tells, from the commands run so far and the command run now, how that command
  ends: the error of \<^verbatim>\<open>Run\<close> (\<open>None\<close> is \<^verbatim>\<open>nil\<close>) and its standard output.  The state
  threaded through the program is the list of commands executed, oldest first.
\<close>

type_synonym command = "string list"

record outcome =
  failure :: "string option"
  stdout :: string

type_synonym system = "command list \<Rightarrow> command \<Rightarrow> outcome"

definition Run :: "system \<Rightarrow> command \<Rightarrow> command list \<Rightarrow> string option \<times> command list" where
  "Run sys c tr = (failure (sys tr c), tr @ [c])"

definition Output ::
  "system \<Rightarrow> command \<Rightarrow> command list \<Rightarrow> (string \<times> string option) \<times> command list" where
  "Output sys c tr = ((stdout (sys tr c), failure (sys tr c)), tr @ [c])"

section \<open>The navigation strategy\<close>

definition checkCmd :: command where
  "checkCmd = [''pgrep'', ''firefox'']"

definition focusCmd :: command where
  "focusCmd =
     [''xdotool'', ''search'', ''--onlyvisible'', ''--class'', ''Firefox'', ''windowactivate'']"

definition selectCmd :: command where
  "selectCmd = [''xdotool'', ''key'', ''ctrl+l'']"

definition typeCmd :: "string \<Rightarrow> command" where
  "typeCmd url = [''xdotool'', ''type'', ''--clearmodifiers'', url]"

definition enterCmd :: command where
  "enterCmd = [''xdotool'', ''key'', ''Return'']"

text \<open>The AppleScript of the macOS branch, with the URL in the place of \<^verbatim>\<open>%s\<close>.\<close>

definition scriptHead :: string where
  \<open>scriptHead =
     nl @ tab @ tab @ ''tell application "Firefox"'' @
     nl @ tab @ tab @ tab @ ''activate'' @
     nl @ tab @ tab @ tab @ ''tell application "System Events"'' @
     nl @ tab @ tab @ tab @ tab @ ''tell process "Firefox"'' @
     nl @ tab @ tab @ tab @ tab @ tab @ ''keystroke "l" using command down'' @
     nl @ tab @ tab @ tab @ tab @ tab @ ''delay 0.1'' @
     nl @ tab @ tab @ tab @ tab @ tab @ ''keystroke "a" using command down'' @
     nl @ tab @ tab @ tab @ tab @ tab @ ''delay 0.1'' @
     nl @ tab @ tab @ tab @ tab @ tab @ ''keystroke "''\<close>

definition scriptTail :: string where
  \<open>scriptTail =
     ''"'' @
     nl @ tab @ tab @ tab @ tab @ tab @ ''delay 0.1'' @
     nl @ tab @ tab @ tab @ tab @ tab @ ''keystroke return'' @
     nl @ tab @ tab @ tab @ tab @ ''end tell'' @
     nl @ tab @ tab @ tab @ ''end tell'' @
     nl @ tab @ tab @ ''end tell''\<close>

definition scriptContent :: "string \<Rightarrow> string" where
  "scriptContent url = scriptHead @ url @ scriptTail"

definition osascriptCmd :: "string \<Rightarrow> command" where
  "osascriptCmd url = [''osascript'', ''-e'', scriptContent url]"

text \<open>The PowerShell script of the Windows branch; the URL is substituted twice.\<close>

definition psScript :: "string \<Rightarrow> string" where
  \<open>psScript url =
     nl @ tab @ tab @ tab @ ''Add-Type -AssemblyName System.Windows.Forms'' @
     nl @ tab @ tab @ tab @ ''# Focus Firefox window'' @
     nl @ tab @ tab @ tab @ ''$firefox = Get-Process firefox | Where-Object {$_.MainWindowHandle -ne 0} | Select-Object -First 1'' @
     nl @ tab @ tab @ tab @ ''if ($firefox) {'' @
     nl @ tab @ tab @ tab @ tab @ ''[void][System.Reflection.Assembly]::LoadWithPartialName('' @
       [CHR 0x27] @ ''Microsoft.VisualBasic'' @ [CHR 0x27] @ '')'' @
     nl @ tab @ tab @ tab @ tab @ ''$hwnd = $firefox.MainWindowHandle'' @
     nl @ tab @ tab @ tab @ tab @ ''[Microsoft.VisualBasic.Interaction]::AppActivate($hwnd)'' @
     nl @ tab @ tab @ tab @ tab @ ''Start-Sleep -Milliseconds 100'' @
     nl @ tab @ tab @ tab @ tab @ ''# Select address bar and enter URL'' @
     nl @ tab @ tab @ tab @ tab @ ''[System.Windows.Forms.SendKeys]::SendWait("^l")'' @
     nl @ tab @ tab @ tab @ tab @ ''Start-Sleep -Milliseconds 100'' @
     nl @ tab @ tab @ tab @ tab @ ''[System.Windows.Forms.SendKeys]::SendWait("^a")'' @
     nl @ tab @ tab @ tab @ tab @ ''Start-Sleep -Milliseconds 100'' @
     nl @ tab @ tab @ tab @ tab @ ''[System.Windows.Forms.SendKeys]::SendWait("'' @ url @ ''")'' @
     nl @ tab @ tab @ tab @ tab @ ''Start-Sleep -Milliseconds 100'' @
     nl @ tab @ tab @ tab @ tab @ ''[System.Windows.Forms.SendKeys]::SendWait("{ENTER}")'' @
     nl @ tab @ tab @ tab @ ''} else {'' @
     nl @ tab @ tab @ tab @ tab @ ''Start-Process "firefox.exe" -ArgumentList "'' @ url @ ''"'' @
     nl @ tab @ tab @ tab @ ''}''\<close>

definition tasklistCmd :: command where
  "tasklistCmd = [''tasklist'', ''/FI'', ''IMAGENAME eq firefox.exe'', ''/NH'']"

definition startCmd :: "string \<Rightarrow> command" where
  "startCmd url = [''cmd'', ''/C'', ''start'', ''firefox.exe'', url]"

text \<open>
  \<^verbatim>\<open>updateFirefoxURL\<close>, with \<^verbatim>\<open>runtime.GOOS\<close> as the parameter \<open>goos\<close>.  The result is
  the returned error (\<open>None\<close> is \<^verbatim>\<open>nil\<close>) and the commands executed so far.
\<close>

definition updateFirefoxURL ::
  "string \<Rightarrow> system \<Rightarrow> string \<Rightarrow> command list \<Rightarrow> string option \<times> command list" where
  "updateFirefoxURL goos sys url tr =
     (if goos = ''linux'' then
        (case Run sys checkCmd tr of
           (Some err, tr0) \<Rightarrow> Run sys [''firefox'', url] tr0
         | (None, tr0) \<Rightarrow>
             (case Run sys focusCmd tr0 of
                (Some err, tr1) \<Rightarrow> (Some (''failed to focus Firefox window: '' @ err), tr1)
              | (None, tr1) \<Rightarrow>
                  (case Run sys selectCmd tr1 of
                     (Some err, tr2) \<Rightarrow> (Some (''failed to select address bar: '' @ err), tr2)
                   | (None, tr2) \<Rightarrow>
                       (case Run sys (typeCmd url) tr2 of
                          (Some err, tr3) \<Rightarrow> (Some (''failed to type URL: '' @ err), tr3)
                        | (None, tr3) \<Rightarrow> Run sys enterCmd tr3))))
      else if goos = ''darwin'' then Run sys (osascriptCmd url) tr
      else if goos = ''windows'' then
        (case Output sys tasklistCmd tr of
           ((output, err), tr0) \<Rightarrow>
             if \<not> Contains output ''firefox.exe''
             then Run sys (startCmd url) tr0
             else Run sys [''powershell'', ''-Command'', psScript url] tr0)
      else (Some (''unsupported operating system: '' @ goos), tr))"

section \<open>The HTTP handler\<close>

text \<open>
  The response writer of \<^verbatim>\<open>net/http\<close>: the header map, every call of \<^verbatim>\<open>WriteHeader\<close>
  (the status code with the headers as they were at the call; the first call is the one
  sent, later ones are ignored by the server) and the JSON values written to the body.
\<close>

record ResponseWriter =
  header :: "string \<rightharpoonup> string"
  sent :: "(nat \<times> (string \<rightharpoonup> string)) list"
  written :: "json list"

definition Header_Set :: "string \<Rightarrow> string \<Rightarrow> ResponseWriter \<Rightarrow> ResponseWriter" where
  "Header_Set k v w = w\<lparr>header := (header w)(k \<mapsto> v)\<rparr>"

definition WriteHeader :: "nat \<Rightarrow> ResponseWriter \<Rightarrow> ResponseWriter" where
  "WriteHeader code w = w\<lparr>sent := sent w @ [(code, header w)]\<rparr>"

definition StatusOK :: nat where "StatusOK = 200"
definition StatusBadRequest :: nat where "StatusBadRequest = 400"
definition StatusMethodNotAllowed :: nat where "StatusMethodNotAllowed = 405"
definition StatusInternalServerError :: nat where "StatusInternalServerError = 500"

text \<open>Writing to the body before any \<^verbatim>\<open>WriteHeader\<close> sends status 200 first.\<close>

definition Encode :: "Response \<Rightarrow> ResponseWriter \<Rightarrow> ResponseWriter" where
  "Encode resp w =
     (let w' = (if sent w = [] then WriteHeader StatusOK w else w)
      in w'\<lparr>written := written w' @ [encode_Response resp]\<rparr>)"

record Request =
  Method :: string
  Body :: body

definition MethodPost :: string where
  "MethodPost = ''POST''"

text \<open>
  What one call of the handler acts on: its response writer, whether the request body
  has been read, and the commands executed on the host.
\<close>

record exchange =
  writer :: ResponseWriter
  body_read :: bool
  commands :: "command list"

definition fresh :: "command list \<Rightarrow> exchange" where
  "fresh tr =
     \<lparr>writer = \<lparr>header = Map.empty, sent = [], written = []\<rparr>,
      body_read = False, commands = tr\<rparr>"

text \<open>
  Each answer of the handler is the pair of calls \<^verbatim>\<open>w.WriteHeader(code)\<close> and
  \<^verbatim>\<open>json.NewEncoder(w).Encode(Response{...})\<close>.
\<close>

definition reply :: "nat \<Rightarrow> Response \<Rightarrow> exchange \<Rightarrow> exchange" where
  "reply code resp x = x\<lparr>writer := Encode resp (WriteHeader code (writer x))\<rparr>"

text \<open>
  \<^verbatim>\<open>handleOpenURL\<close>.  Decoding starts from the zero value of \<^verbatim>\<open>URLRequest\<close> and reads
  the body.
\<close>

definition handleOpenURL :: "string \<Rightarrow> system \<Rightarrow> Request \<Rightarrow> exchange \<Rightarrow> exchange" where
  "handleOpenURL goos sys r x =
     (let x0 = x\<lparr>writer := Header_Set ''Content-Type'' ''application/json'' (writer x)\<rparr>
      in if Method r \<noteq> MethodPost then
           reply StatusMethodNotAllowed
             \<lparr>Success = False, Message = ''Only POST method is allowed''\<rparr> x0
         else
           (let (err, req) = Decode (Body r) \<lparr>URL = ''''\<rparr>;
                x1 = x0\<lparr>body_read := True\<rparr>
            in if err \<noteq> None then
                 reply StatusBadRequest
                   \<lparr>Success = False, Message = ''Invalid JSON payload''\<rparr> x1
               else if URL req = '''' then
                 reply StatusBadRequest
                   \<lparr>Success = False, Message = ''URL cannot be empty''\<rparr> x1
               else
                 (case updateFirefoxURL goos sys (URL req) (commands x1) of
                    (Some err, tr) \<Rightarrow>
                      reply StatusInternalServerError
                        \<lparr>Success = False, Message = ''Failed to change URL: '' @ err\<rparr>
                        (x1\<lparr>commands := tr\<rparr>)
                  | (None, tr) \<Rightarrow>
                      reply StatusOK
                        \<lparr>Success = True,
                         Message = ''Successfully changed Firefox tab to '' @ URL req\<rparr>
                        (x1\<lparr>commands := tr\<rparr>))))"

text \<open>What a client sees of an exchange.\<close>

definition status_codes :: "exchange \<Rightarrow> nat list" where
  "status_codes x = map fst (sent (writer x))"

definition content_types :: "exchange \<Rightarrow> string option list" where
  "content_types x = map (\<lambda>(code, h). h ''Content-Type'') (sent (writer x))"

definition payloads :: "exchange \<Rightarrow> json list" where
  "payloads x = written (writer x)"

text \<open>
  The exchange after a fresh one has been answered once: the status code, the response
  sent, whether the body was read, and the commands executed.
\<close>

definition answer :: "nat \<Rightarrow> Response \<Rightarrow> bool \<Rightarrow> command list \<Rightarrow> exchange" where
  "answer code resp b tr =
     \<lparr>writer =
        \<lparr>header = [''Content-Type'' \<mapsto> ''application/json''],
         sent = [(code, [''Content-Type'' \<mapsto> ''application/json''])],
         written = [encode_Response resp]\<rparr>,
      body_read = b, commands = tr\<rparr>"

section \<open>Example hosts\<close>

text \<open>A host on which every command succeeds, and one on which a given command fails.\<close>

definition sys_ok :: system where
  "sys_ok tr c = \<lparr>failure = None, stdout = []\<rparr>"

definition sys_fail :: "command \<Rightarrow> string \<Rightarrow> system" where
  "sys_fail bad e tr c = (if c = bad then \<lparr>failure = Some e, stdout = []\<rparr> else \<lparr>failure = None, stdout = []\<rparr>)"

section \<open>Auxiliary facts\<close>

lemma reply_fresh:
  "reply code resp
     ((fresh tr)\<lparr>writer := Header_Set ''Content-Type'' ''application/json'' (writer (fresh tr))\<rparr>)
   = answer code resp False tr"
  by (simp add: answer_def reply_def Encode_def WriteHeader_def Header_Set_def fresh_def)

lemma reply_fresh_read:
  "reply code resp
     ((fresh tr)\<lparr>writer := Header_Set ''Content-Type'' ''application/json'' (writer (fresh tr)),
        body_read := True\<rparr>)
   = answer code resp True tr"
  by (simp add: answer_def reply_def Encode_def WriteHeader_def Header_Set_def fresh_def)

lemma reply_fresh_run:
  "reply code resp
     ((fresh tr)\<lparr>writer := Header_Set ''Content-Type'' ''application/json'' (writer (fresh tr)),
        body_read := True, commands := tr'\<rparr>)
   = answer code resp True tr'"
  by (simp add: answer_def reply_def Encode_def WriteHeader_def Header_Set_def fresh_def)

lemma answer_observed:
  "status_codes (answer code resp b tr) = [code]"
  "content_types (answer code resp b tr) = [Some ''application/json'']"
  "payloads (answer code resp b tr) =
     [JObject [(''success'', JBool (Success resp)), (''message'', JString (Message resp))]]"
  "body_read (answer code resp b tr) = b"
  "commands (answer code resp b tr) = tr"
  by (simp_all add: answer_def status_codes_def content_types_def payloads_def encode_Response_def)

lemma commands_fresh: "commands (fresh tr) = tr"
  by (simp add: fresh_def)

lemma handle_not_post:
  "Method r \<noteq> MethodPost \<Longrightarrow>
   handleOpenURL goos sys r (fresh tr) =
     answer 405 \<lparr>Success = False, Message = ''Only POST method is allowed''\<rparr> False tr"
  by (simp add: handleOpenURL_def reply_fresh StatusMethodNotAllowed_def)

lemma handle_decode_error:
  "Method r = MethodPost \<Longrightarrow> Decode (Body r) \<lparr>URL = ''''\<rparr> = (Some e, req) \<Longrightarrow>
   handleOpenURL goos sys r (fresh tr) =
     answer 400 \<lparr>Success = False, Message = ''Invalid JSON payload''\<rparr> True tr"
  by (simp add: handleOpenURL_def reply_fresh_read StatusBadRequest_def)

lemma handle_empty_url:
  "Method r = MethodPost \<Longrightarrow> Decode (Body r) \<lparr>URL = ''''\<rparr> = (None, req) \<Longrightarrow> URL req = '''' \<Longrightarrow>
   handleOpenURL goos sys r (fresh tr) =
     answer 400 \<lparr>Success = False, Message = ''URL cannot be empty''\<rparr> True tr"
  by (simp add: handleOpenURL_def reply_fresh_read StatusBadRequest_def)

lemma handle_navigation_error:
  "Method r = MethodPost \<Longrightarrow> Decode (Body r) \<lparr>URL = ''''\<rparr> = (None, req) \<Longrightarrow> URL req \<noteq> '''' \<Longrightarrow>
   updateFirefoxURL goos sys (URL req) tr = (Some e, tr') \<Longrightarrow>
   handleOpenURL goos sys r (fresh tr) =
     answer 500 \<lparr>Success = False, Message = ''Failed to change URL: '' @ e\<rparr> True tr'"
  by (simp add: handleOpenURL_def reply_fresh_run StatusInternalServerError_def commands_fresh)

lemma handle_navigation_ok:
  "Method r = MethodPost \<Longrightarrow> Decode (Body r) \<lparr>URL = ''''\<rparr> = (None, req) \<Longrightarrow> URL req \<noteq> '''' \<Longrightarrow>
   updateFirefoxURL goos sys (URL req) tr = (None, tr') \<Longrightarrow>
   handleOpenURL goos sys r (fresh tr) =
     answer 200 \<lparr>Success = True, Message = ''Successfully changed Firefox tab to '' @ URL req\<rparr> True tr'"
  by (simp add: handleOpenURL_def reply_fresh_run StatusOK_def commands_fresh)

lemma HasPrefix_append: "HasPrefix (u @ s) u"
  by (induction u) simp_all

lemma HasPrefix_Contains: "HasPrefix s u \<Longrightarrow> Contains s u"
  by (cases s) (auto elim: HasPrefix.elims)

lemma Contains_infix: "Contains (p @ u @ s) u"
  by (induction p) (simp_all add: HasPrefix_append HasPrefix_Contains)




lemma Contains_prepend: "Contains s u \<Longrightarrow> Contains (t @ s) u"
  by (induction t) simp_all

lemma Decode_Malformed: "Decode Malformed req = (Some SyntaxError, req)"
  by (simp add: Decode_def)

lemma matches_url: "matches_url_field ''url''"
  by (simp add: matches_url_field_def)

lemma Decode_url_string:
  "Decode (Document (JObject [(''url'', JString u)])) \<lparr>URL = ''''\<rparr> = (None, \<lparr>URL = u\<rparr>)"
  by (simp add: Decode_def matches_url)

lemma Decode_empty_object:
  "Decode (Document (JObject [])) \<lparr>URL = ''''\<rparr> = (None, \<lparr>URL = ''''\<rparr>)"
  by (simp add: Decode_def)

lemma saveError_snd: "snd (saveError e st) \<noteq> None"
  by (cases st; cases "snd st") auto

lemma store_URL_keeps_error: "snd st \<noteq> None \<Longrightarrow> snd (store_URL v st) \<noteq> None"
  by (cases v; cases st) auto

lemma object_members_keeps_error:
  "snd st \<noteq> None \<Longrightarrow> snd (object_members kvs st) \<noteq> None"
proof (induction kvs arbitrary: st)
  case Nil
  then show ?case by simp
next
  case (Cons kv kvs)
  obtain k' v' where kv: "kv = (k', v')" by (cases kv)
  have "snd (if matches_url_field k' then store_URL v' st else st) \<noteq> None"
    using Cons.prems store_URL_keeps_error [of st v'] by (simp del: not_None_eq)
  then have "snd (object_members kvs (if matches_url_field k' then store_URL v' st else st)) \<noteq> None"
    by (rule Cons.IH)
  then show ?case by (simp add: kv del: not_None_eq)
qed

lemma store_URL_type_error:
  "v \<noteq> JNull \<Longrightarrow> \<forall>s. v \<noteq> JString s \<Longrightarrow> snd (store_URL v st) \<noteq> None"
  by (cases v; cases st) (auto simp: saveError_snd simp del: not_None_eq)

lemma object_members_type_error:
  "(key, v) \<in> set kvs \<Longrightarrow> matches_url_field key \<Longrightarrow> v \<noteq> JNull \<Longrightarrow> \<forall>s. v \<noteq> JString s \<Longrightarrow>
   snd (object_members kvs st) \<noteq> None"
proof (induction kvs arbitrary: st)
  case Nil
  then show ?case by simp
next
  case (Cons kv kvs)
  obtain k' v' where kv: "kv = (k', v')" by (cases kv)
  show ?case
  proof (cases "(key, v) = kv")
    case True
    with kv have same: "k' = key" "v' = v" by simp_all
    have "snd (store_URL v st) \<noteq> None"
      using Cons.prems(3,4) by (rule store_URL_type_error)
    then have "snd (object_members kvs (store_URL v st)) \<noteq> None"
      by (rule object_members_keeps_error)
    with same kv Cons.prems(2) show ?thesis by (simp del: not_None_eq)
  next
    case False
    with Cons.prems have "(key, v) \<in> set kvs" by auto
    then have "snd (object_members kvs (if matches_url_field k' then store_URL v' st else st)) \<noteq> None"
      using Cons.prems(2,3,4) by (rule Cons.IH)
    then show ?thesis by (simp add: kv del: not_None_eq)
  qed
qed

lemma Decode_type_error:
  assumes "(key, v) \<in> set kvs" "matches_url_field key" "v \<noteq> JNull" "\<forall>s. v \<noteq> JString s"
  shows "\<exists>e req. Decode (Document (JObject kvs)) req0 = (Some e, req)"
proof -
  have "snd (object_members kvs (req0, None)) \<noteq> None"
    using assms by (rule object_members_type_error)
  then show ?thesis
    by (cases "object_members kvs (req0, None)") (auto simp: Decode_def)
qed

lemma unsupported_os:
  "goos \<noteq> ''linux'' \<Longrightarrow> goos \<noteq> ''darwin'' \<Longrightarrow> goos \<noteq> ''windows'' \<Longrightarrow>
   updateFirefoxURL goos sys url tr = (Some (''unsupported operating system: '' @ goos), tr)"
  by (simp add: updateFirefoxURL_def)

lemma sys_ok_linux:
  "updateFirefoxURL ''linux'' sys_ok url tr =
     (None, tr @ [checkCmd, focusCmd, selectCmd, typeCmd url, enterCmd])"
  by (simp add: updateFirefoxURL_def Run_def sys_ok_def)

lemma Decode_url_null:
  "Decode (Document (JObject [(''url'', JNull)])) \<lparr>URL = ''''\<rparr> = (None, \<lparr>URL = ''''\<rparr>)"
  by (simp add: Decode_def matches_url)

text \<open>
  Which bodies decode to which URL: members of other names do not matter, a member
  name is matched whatever its case, and a top-level value that is neither an object
  nor \<^verbatim>\<open>null\<close> is rejected.
\<close>

lemma object_members_append:
  "object_members (xs @ ys) st = object_members ys (object_members xs st)"
proof (induction xs arbitrary: st)
  case Nil
  show ?case by simp
next
  case (Cons kv xs)
  obtain k v where "kv = (k, v)" by (cases kv)
  then show ?case by (simp add: Cons.IH)
qed

lemma object_members_skip:
  "\<forall>(k, v) \<in> set kvs. \<not> matches_url_field k \<Longrightarrow> object_members kvs st = st"
proof (induction kvs arbitrary: st)
  case Nil
  show ?case by simp
next
  case (Cons kv kvs)
  obtain k v where kv: "kv = (k, v)" by (cases kv)
  with Cons.prems have "\<not> matches_url_field k" and "\<forall>(k, v) \<in> set kvs. \<not> matches_url_field k"
    by simp_all
  with kv show ?case by (simp add: Cons.IH)
qed

lemma Decode_no_url:
  "\<forall>(k, v) \<in> set kvs. \<not> matches_url_field k \<Longrightarrow>
   Decode (Document (JObject kvs)) \<lparr>URL = ''''\<rparr> = (None, \<lparr>URL = ''''\<rparr>)"
  by (simp add: Decode_def object_members_skip)

lemma Decode_one_url:
  assumes "\<forall>(k, v) \<in> set pre. \<not> matches_url_field k"
    and "\<forall>(k, v) \<in> set post. \<not> matches_url_field k"
    and "matches_url_field key"
  shows "Decode (Document (JObject (pre @ (key, JString u) # post))) \<lparr>URL = ''''\<rparr> =
    (None, \<lparr>URL = u\<rparr>)"
  using assms by (simp add: Decode_def object_members_append object_members_skip)

lemma Decode_not_object:
  "Decode (Document (JBool b)) req = (Some UnmarshalTypeError, req)"
  "Decode (Document (JNumber n)) req = (Some UnmarshalTypeError, req)"
  "Decode (Document (JString s)) req = (Some UnmarshalTypeError, req)"
  "Decode (Document (JArray vs)) req = (Some UnmarshalTypeError, req)"
  by (simp_all add: Decode_def)

lemma matches_url_upper: "matches_url_field ''URL''" "matches_url_field ''Url''" "\<not> matches_url_field ''uri''"
  by (simp_all add: matches_url_field_def foldName_def asciiUpper_def)

lemmas linux_command_defs = checkCmd_def focusCmd_def selectCmd_def typeCmd_def enterCmd_def


section \<open>The handler\<close>

text \<open>
  C1.  A POST request whose body decodes without error to a non-empty URL, and for which
  \<^verbatim>\<open>updateFirefoxURL\<close> returns no error, is answered with status 200, success true and
  the message "Successfully changed Firefox tab to " followed by the submitted URL, so
  the message contains that URL.
\<close>

theorem navigation_success_reported:
  assumes "Method r = ''POST''"
    and "Decode (Body r) \<lparr>URL = ''''\<rparr> = (None, req)"
    and "URL req \<noteq> ''''"
    and "updateFirefoxURL goos sys (URL req) tr = (None, tr')"
  shows "status_codes (handleOpenURL goos sys r (fresh tr)) = [200]
    \<and> content_types (handleOpenURL goos sys r (fresh tr)) = [Some ''application/json'']
    \<and> payloads (handleOpenURL goos sys r (fresh tr)) =
        [JObject [(''success'', JBool True),
                  (''message'', JString (''Successfully changed Firefox tab to '' @ URL req))]]
    \<and> Contains (''Successfully changed Firefox tab to '' @ URL req) (URL req)
    \<and> commands (handleOpenURL goos sys r (fresh tr)) = tr'"
proof -
  from assms have "handleOpenURL goos sys r (fresh tr) =
      answer 200 \<lparr>Success = True,
        Message = ''Successfully changed Firefox tab to '' @ URL req\<rparr> True tr'"
    by (simp add: handle_navigation_ok MethodPost_def)
  moreover have "Contains (''Successfully changed Firefox tab to '' @ URL req @ []) (URL req)"
    by (rule Contains_infix)
  ultimately show ?thesis by (simp add: answer_observed)
qed

theorem navigation_success_reported_witness:
  "Method \<lparr>Method = ''POST'', Body = Document (JObject [(''url'', JString ''https://example.com'')])\<rparr> = ''POST''
   \<and> Decode (Body \<lparr>Method = ''POST'', Body = Document (JObject [(''url'', JString ''https://example.com'')])\<rparr>)
        \<lparr>URL = ''''\<rparr> = (None, \<lparr>URL = ''https://example.com''\<rparr>)
   \<and> URL \<lparr>URL = ''https://example.com''\<rparr> \<noteq> ''''
   \<and> updateFirefoxURL ''linux'' sys_ok (URL \<lparr>URL = ''https://example.com''\<rparr>) [] =
        (None, [checkCmd, focusCmd, selectCmd, typeCmd ''https://example.com'', enterCmd])
   \<and> status_codes (handleOpenURL ''linux'' sys_ok
        \<lparr>Method = ''POST'', Body = Document (JObject [(''url'', JString ''https://example.com'')])\<rparr> (fresh [])) = [200]
   \<and> payloads (handleOpenURL ''linux'' sys_ok
        \<lparr>Method = ''POST'', Body = Document (JObject [(''url'', JString ''https://example.com'')])\<rparr> (fresh [])) =
        [JObject [(''success'', JBool True),
                  (''message'', JString ''Successfully changed Firefox tab to https://example.com'')]]"
  using navigation_success_reported
    [of "\<lparr>Method = ''POST'', Body = Document (JObject [(''url'', JString ''https://example.com'')])\<rparr>"
        "\<lparr>URL = ''https://example.com''\<rparr>" "''linux''" sys_ok "[]"
        "[checkCmd, focusCmd, selectCmd, typeCmd ''https://example.com'', enterCmd]"]
  by (simp add: Decode_url_string sys_ok_linux)

text \<open>
  C2.  A POST request whose body decodes without error to a non-empty URL, and for which
  \<^verbatim>\<open>updateFirefoxURL\<close> returns an error, is answered with status 500, success false and
  the message "Failed to change URL: " followed by the text of that error.  On an
  operating system other than linux, darwin and windows the message is exactly
  "Failed to change URL: unsupported operating system: " followed by the name of the
  system, and no command is executed.
\<close>

theorem navigation_failure_reported:
  assumes "Method r = ''POST''"
    and "Decode (Body r) \<lparr>URL = ''''\<rparr> = (None, req)"
    and "URL req \<noteq> ''''"
  shows "(\<forall>e tr'. updateFirefoxURL goos sys (URL req) tr = (Some e, tr') \<longrightarrow>
            status_codes (handleOpenURL goos sys r (fresh tr)) = [500]
          \<and> content_types (handleOpenURL goos sys r (fresh tr)) = [Some ''application/json'']
          \<and> payloads (handleOpenURL goos sys r (fresh tr)) =
              [JObject [(''success'', JBool False),
                        (''message'', JString (''Failed to change URL: '' @ e))]]
          \<and> Contains (''Failed to change URL: '' @ e) e
          \<and> commands (handleOpenURL goos sys r (fresh tr)) = tr')
    \<and> (goos \<noteq> ''linux'' \<and> goos \<noteq> ''darwin'' \<and> goos \<noteq> ''windows'' \<longrightarrow>
            status_codes (handleOpenURL goos sys r (fresh tr)) = [500]
          \<and> payloads (handleOpenURL goos sys r (fresh tr)) =
              [JObject [(''success'', JBool False),
                        (''message'',
                         JString (''Failed to change URL: unsupported operating system: '' @ goos))]]
          \<and> commands (handleOpenURL goos sys r (fresh tr)) = tr)"
proof -
  have general: "handleOpenURL goos sys r (fresh tr) =
      answer 500 \<lparr>Success = False, Message = ''Failed to change URL: '' @ e\<rparr> True tr'"
    if "updateFirefoxURL goos sys (URL req) tr = (Some e, tr')" for e tr'
    using assms that by (simp add: handle_navigation_error MethodPost_def)
  have inside: "Contains (''Failed to change URL: '' @ e @ []) e" for e
    by (rule Contains_infix)
  have first: "status_codes (handleOpenURL goos sys r (fresh tr)) = [500]
      \<and> content_types (handleOpenURL goos sys r (fresh tr)) = [Some ''application/json'']
      \<and> payloads (handleOpenURL goos sys r (fresh tr)) =
          [JObject [(''success'', JBool False),
                    (''message'', JString (''Failed to change URL: '' @ e))]]
      \<and> Contains (''Failed to change URL: '' @ e) e
      \<and> commands (handleOpenURL goos sys r (fresh tr)) = tr'"
    if "updateFirefoxURL goos sys (URL req) tr = (Some e, tr')" for e tr'
    using general [OF that] inside [of e] by (simp add: answer_observed)
  have second: "status_codes (handleOpenURL goos sys r (fresh tr)) = [500]
      \<and> payloads (handleOpenURL goos sys r (fresh tr)) =
          [JObject [(''success'', JBool False),
                    (''message'',
                     JString (''Failed to change URL: unsupported operating system: '' @ goos))]]
      \<and> commands (handleOpenURL goos sys r (fresh tr)) = tr"
    if "goos \<noteq> ''linux''" "goos \<noteq> ''darwin''" "goos \<noteq> ''windows''"
    using general [OF unsupported_os [OF that]] by (simp add: answer_observed)
  from first second show ?thesis by blast
qed

theorem navigation_failure_reported_witness:
  "Method \<lparr>Method = ''POST'', Body = Document (JObject [(''url'', JString ''https://example.com'')])\<rparr> = ''POST''
   \<and> Decode (Body \<lparr>Method = ''POST'', Body = Document (JObject [(''url'', JString ''https://example.com'')])\<rparr>)
        \<lparr>URL = ''''\<rparr> = (None, \<lparr>URL = ''https://example.com''\<rparr>)
   \<and> URL \<lparr>URL = ''https://example.com''\<rparr> \<noteq> ''''
   \<and> updateFirefoxURL ''plan9'' sys_ok (URL \<lparr>URL = ''https://example.com''\<rparr>) [] =
        (Some ''unsupported operating system: plan9'', [])
   \<and> ''plan9'' \<noteq> ''linux'' \<and> ''plan9'' \<noteq> ''darwin'' \<and> ''plan9'' \<noteq> ''windows''
   \<and> status_codes (handleOpenURL ''plan9'' sys_ok
        \<lparr>Method = ''POST'', Body = Document (JObject [(''url'', JString ''https://example.com'')])\<rparr> (fresh [])) = [500]
   \<and> payloads (handleOpenURL ''plan9'' sys_ok
        \<lparr>Method = ''POST'', Body = Document (JObject [(''url'', JString ''https://example.com'')])\<rparr> (fresh [])) =
        [JObject [(''success'', JBool False),
                  (''message'', JString ''Failed to change URL: unsupported operating system: plan9'')]]
   \<and> commands (handleOpenURL ''plan9'' sys_ok
        \<lparr>Method = ''POST'', Body = Document (JObject [(''url'', JString ''https://example.com'')])\<rparr> (fresh [])) = []"
  using navigation_failure_reported
    [of "\<lparr>Method = ''POST'', Body = Document (JObject [(''url'', JString ''https://example.com'')])\<rparr>"
        "\<lparr>URL = ''https://example.com''\<rparr>" "''plan9''" sys_ok "[]"]
  by (simp add: Decode_url_string unsupported_os)

text \<open>
  C3.  A POST request whose body decodes without error and leaves the URL empty (as the
  body \<^verbatim>\<open>{}\<close> does) is answered with status 400, success false and the message
  "URL cannot be empty"; no command is executed.
\<close>

theorem empty_url_rejected:
  assumes "Method r = ''POST''"
    and "Decode (Body r) \<lparr>URL = ''''\<rparr> = (None, req)"
    and "URL req = ''''"
  shows "status_codes (handleOpenURL goos sys r (fresh tr)) = [400]
    \<and> content_types (handleOpenURL goos sys r (fresh tr)) = [Some ''application/json'']
    \<and> payloads (handleOpenURL goos sys r (fresh tr)) =
        [JObject [(''success'', JBool False), (''message'', JString ''URL cannot be empty'')]]
    \<and> commands (handleOpenURL goos sys r (fresh tr)) = tr"
proof -
  from assms have "handleOpenURL goos sys r (fresh tr) =
      answer 400 \<lparr>Success = False, Message = ''URL cannot be empty''\<rparr> True tr"
    by (simp add: handle_empty_url MethodPost_def)
  then show ?thesis by (simp add: answer_observed)
qed

theorem empty_url_rejected_witness:
  "Method \<lparr>Method = ''POST'', Body = Document (JObject [])\<rparr> = ''POST''
   \<and> Decode (Body \<lparr>Method = ''POST'', Body = Document (JObject [])\<rparr>) \<lparr>URL = ''''\<rparr> = (None, \<lparr>URL = ''''\<rparr>)
   \<and> URL \<lparr>URL = ''''\<rparr> = ''''
   \<and> status_codes (handleOpenURL ''linux'' sys_ok \<lparr>Method = ''POST'', Body = Document (JObject [])\<rparr> (fresh [])) = [400]
   \<and> payloads (handleOpenURL ''linux'' sys_ok \<lparr>Method = ''POST'', Body = Document (JObject [])\<rparr> (fresh [])) =
        [JObject [(''success'', JBool False), (''message'', JString ''URL cannot be empty'')]]
   \<and> commands (handleOpenURL ''linux'' sys_ok \<lparr>Method = ''POST'', Body = Document (JObject [])\<rparr> (fresh [])) = []"
  using empty_url_rejected [of "\<lparr>Method = ''POST'', Body = Document (JObject [])\<rparr>" "\<lparr>URL = ''''\<rparr>" "''linux''" sys_ok "[]"]
  by (simp add: Decode_empty_object)

text \<open>
  C4.  A request whose method is not POST is answered with status 405, success false and
  the message "Only POST method is allowed", whatever its body; the body is not read and
  no command is executed.
\<close>

theorem not_post_rejected:
  assumes "Method r \<noteq> ''POST''"
  shows "status_codes (handleOpenURL goos sys r (fresh tr)) = [405]
    \<and> content_types (handleOpenURL goos sys r (fresh tr)) = [Some ''application/json'']
    \<and> payloads (handleOpenURL goos sys r (fresh tr)) =
        [JObject [(''success'', JBool False), (''message'', JString ''Only POST method is allowed'')]]
    \<and> \<not> body_read (handleOpenURL goos sys r (fresh tr))
    \<and> commands (handleOpenURL goos sys r (fresh tr)) = tr"
  using assms by (simp add: handle_not_post MethodPost_def answer_observed)

theorem not_post_rejected_witness:
  "Method \<lparr>Method = ''GET'', Body = Document (JObject [(''url'', JString ''https://example.com'')])\<rparr> \<noteq> ''POST''
   \<and> status_codes (handleOpenURL ''linux'' sys_ok
         \<lparr>Method = ''GET'', Body = Document (JObject [(''url'', JString ''https://example.com'')])\<rparr> (fresh [])) = [405]
   \<and> payloads (handleOpenURL ''linux'' sys_ok
         \<lparr>Method = ''GET'', Body = Document (JObject [(''url'', JString ''https://example.com'')])\<rparr> (fresh [])) =
        [JObject [(''success'', JBool False), (''message'', JString ''Only POST method is allowed'')]]
   \<and> commands (handleOpenURL ''linux'' sys_ok
         \<lparr>Method = ''GET'', Body = Document (JObject [(''url'', JString ''https://example.com'')])\<rparr> (fresh [])) = []"
  using not_post_rejected [of "\<lparr>Method = ''GET'', Body = Document (JObject [(''url'', JString ''https://example.com'')])\<rparr>" "''linux''" sys_ok "[]"]
  by simp

text \<open>
  C5.  A POST request whose body the decoder rejects is answered with status 400,
  success false and the message "Invalid JSON payload"; no command is executed.
\<close>

theorem invalid_json_rejected:
  assumes "Method r = ''POST''"
    and "fst (Decode (Body r) \<lparr>URL = ''''\<rparr>) \<noteq> None"
  shows "status_codes (handleOpenURL goos sys r (fresh tr)) = [400]
    \<and> content_types (handleOpenURL goos sys r (fresh tr)) = [Some ''application/json'']
    \<and> payloads (handleOpenURL goos sys r (fresh tr)) =
        [JObject [(''success'', JBool False), (''message'', JString ''Invalid JSON payload'')]]
    \<and> commands (handleOpenURL goos sys r (fresh tr)) = tr"
proof -
  from assms(2) obtain e req where "Decode (Body r) \<lparr>URL = ''''\<rparr> = (Some e, req)"
    by (cases "Decode (Body r) \<lparr>URL = ''''\<rparr>") auto
  with assms(1) have "handleOpenURL goos sys r (fresh tr) =
      answer 400 \<lparr>Success = False, Message = ''Invalid JSON payload''\<rparr> True tr"
    by (simp add: handle_decode_error MethodPost_def)
  then show ?thesis by (simp add: answer_observed)
qed

theorem invalid_json_rejected_witness:
  "Method \<lparr>Method = ''POST'', Body = Malformed\<rparr> = ''POST''
   \<and> fst (Decode (Body \<lparr>Method = ''POST'', Body = Malformed\<rparr>) \<lparr>URL = ''''\<rparr>) \<noteq> None
   \<and> status_codes (handleOpenURL ''linux'' sys_ok \<lparr>Method = ''POST'', Body = Malformed\<rparr> (fresh [])) = [400]
   \<and> payloads (handleOpenURL ''linux'' sys_ok \<lparr>Method = ''POST'', Body = Malformed\<rparr> (fresh [])) =
        [JObject [(''success'', JBool False), (''message'', JString ''Invalid JSON payload'')]]
   \<and> commands (handleOpenURL ''linux'' sys_ok \<lparr>Method = ''POST'', Body = Malformed\<rparr> (fresh [])) = []"
  using invalid_json_rejected [of "\<lparr>Method = ''POST'', Body = Malformed\<rparr>" "''linux''" sys_ok "[]"]
  by (simp add: Decode_Malformed)

text \<open>
  C9 as stated fails.  The body \<^verbatim>\<open>{"url": null}\<close> has a \<^verbatim>\<open>url\<close> member that is not a string, and the
  decoder accepts it: \<^verbatim>\<open>null\<close> leaves the Go string as it is.  The answer is
  "URL cannot be empty", not "Invalid JSON payload".
\<close>

theorem null_url_counterexample:
  "payloads (handleOpenURL ''linux'' sys_ok
      \<lparr>Method = ''POST'', Body = Document (JObject [(''url'', JNull)])\<rparr> (fresh [])) =
     [JObject [(''success'', JBool False), (''message'', JString ''URL cannot be empty'')]]
   \<and> payloads (handleOpenURL ''linux'' sys_ok
      \<lparr>Method = ''POST'', Body = Document (JObject [(''url'', JNull)])\<rparr> (fresh [])) \<noteq>
     [JObject [(''success'', JBool False), (''message'', JString ''Invalid JSON payload'')]]"
proof -
  have "handleOpenURL ''linux'' sys_ok
      \<lparr>Method = ''POST'', Body = Document (JObject [(''url'', JNull)])\<rparr> (fresh []) =
    answer 400 \<lparr>Success = False, Message = ''URL cannot be empty''\<rparr> True []"
    by (rule handle_empty_url [where req = "\<lparr>URL = ''''\<rparr>"])
       (simp_all add: MethodPost_def Decode_url_null)
  then show ?thesis by (simp add: answer_observed)
qed

text \<open>
  C9, amended.  A POST request whose body is a JSON object with a \<^verbatim>\<open>url\<close> member whose
  value is neither a string nor \<^verbatim>\<open>null\<close> (a number, a boolean, an array or an object)
  is answered with status 400 and the message "Invalid JSON payload", not
  "URL cannot be empty"; no command is executed.
\<close>

theorem ill_typed_url_rejected:
  assumes "Method r = ''POST''"
    and "Body r = Document (JObject kvs)"
    and "(key, v) \<in> set kvs"
    and "matches_url_field key"
    and "v \<noteq> JNull"
    and "\<forall>s. v \<noteq> JString s"
  shows "status_codes (handleOpenURL goos sys r (fresh tr)) = [400]
    \<and> payloads (handleOpenURL goos sys r (fresh tr)) =
        [JObject [(''success'', JBool False), (''message'', JString ''Invalid JSON payload'')]]
    \<and> payloads (handleOpenURL goos sys r (fresh tr)) \<noteq>
        [JObject [(''success'', JBool False), (''message'', JString ''URL cannot be empty'')]]
    \<and> commands (handleOpenURL goos sys r (fresh tr)) = tr"
proof -
  from assms(3-6) obtain e req where "Decode (Document (JObject kvs)) \<lparr>URL = ''''\<rparr> = (Some e, req)"
    using Decode_type_error by blast
  with assms(1,2) have "handleOpenURL goos sys r (fresh tr) =
      answer 400 \<lparr>Success = False, Message = ''Invalid JSON payload''\<rparr> True tr"
    by (simp add: handle_decode_error MethodPost_def)
  then show ?thesis by (simp add: answer_observed)
qed

theorem ill_typed_url_rejected_witness:
  "Method \<lparr>Method = ''POST'', Body = Document (JObject [(''url'', JNumber ''5'')])\<rparr> = ''POST''
   \<and> Body \<lparr>Method = ''POST'', Body = Document (JObject [(''url'', JNumber ''5'')])\<rparr> =
        Document (JObject [(''url'', JNumber ''5'')])
   \<and> (''url'', JNumber ''5'') \<in> set [(''url'', JNumber ''5'')]
   \<and> matches_url_field ''url''
   \<and> JNumber ''5'' \<noteq> JNull
   \<and> (\<forall>s. JNumber ''5'' \<noteq> JString s)
   \<and> status_codes (handleOpenURL ''linux'' sys_ok
        \<lparr>Method = ''POST'', Body = Document (JObject [(''url'', JNumber ''5'')])\<rparr> (fresh [])) = [400]
   \<and> payloads (handleOpenURL ''linux'' sys_ok
        \<lparr>Method = ''POST'', Body = Document (JObject [(''url'', JNumber ''5'')])\<rparr> (fresh [])) =
        [JObject [(''success'', JBool False), (''message'', JString ''Invalid JSON payload'')]]
   \<and> commands (handleOpenURL ''linux'' sys_ok
        \<lparr>Method = ''POST'', Body = Document (JObject [(''url'', JNumber ''5'')])\<rparr> (fresh [])) = []"
  using ill_typed_url_rejected
    [of "\<lparr>Method = ''POST'', Body = Document (JObject [(''url'', JNumber ''5'')])\<rparr>"
        "[(''url'', JNumber ''5'')]" "''url''" "JNumber ''5''" "''linux''" sys_ok "[]"]
  by (simp add: matches_url)

text \<open>
  C10.  Every request gets exactly one response: one status code, sent with the
  Content-Type application/json, and one JSON object with exactly the members
  \<^verbatim>\<open>success\<close> and \<^verbatim>\<open>message\<close>.  The status code is one of 200, 400, 405 and 500, and
  \<^verbatim>\<open>success\<close> is true exactly when the status code is 200.
\<close>

theorem one_json_response:
  "\<exists>code ok msg.
      status_codes (handleOpenURL goos sys r (fresh tr)) = [code]
    \<and> content_types (handleOpenURL goos sys r (fresh tr)) = [Some ''application/json'']
    \<and> payloads (handleOpenURL goos sys r (fresh tr)) =
        [JObject [(''success'', JBool ok), (''message'', JString msg)]]
    \<and> ok = (code = 200)
    \<and> code \<in> {200, 400, 405, 500}"
proof -
  have "\<exists>code resp b tr'. handleOpenURL goos sys r (fresh tr) = answer code resp b tr'
      \<and> Success resp = (code = 200) \<and> code \<in> {200, 400, 405, 500}"
  proof (cases "Method r = MethodPost")
    case False
    then show ?thesis by (auto simp: handle_not_post intro!: exI)
  next
    case post: True
    obtain err req where dec: "Decode (Body r) \<lparr>URL = ''''\<rparr> = (err, req)"
      by (cases "Decode (Body r) \<lparr>URL = ''''\<rparr>")
    show ?thesis
    proof (cases err)
      case (Some e)
      with post dec show ?thesis by (auto simp: handle_decode_error intro!: exI)
    next
      case None
      show ?thesis
      proof (cases "URL req = ''''")
        case True
        with post dec None show ?thesis by (auto simp: handle_empty_url intro!: exI)
      next
        case False
        obtain res tr' where nav: "updateFirefoxURL goos sys (URL req) tr = (res, tr')"
          by (cases "updateFirefoxURL goos sys (URL req) tr")
        show ?thesis
        proof (cases res)
          case None
          with post dec \<open>err = None\<close> False nav show ?thesis
            by (auto simp: handle_navigation_ok intro!: exI)
        next
          case (Some e)
          with post dec \<open>err = None\<close> False nav show ?thesis
            by (auto simp: handle_navigation_error intro!: exI)
        qed
      qed
    qed
  qed
  then obtain code resp b tr' where
    "handleOpenURL goos sys r (fresh tr) = answer code resp b tr'"
    "Success resp = (code = 200)" "code \<in> {200, 400, 405, 500}"
    by blast
  then show ?thesis
    by (intro exI [of _ code] exI [of _ "Success resp"] exI [of _ "Message resp"])
       (simp add: answer_observed)
qed

section \<open>The navigation strategy on each system\<close>

text \<open>
  C6 as stated fails for the last step.  When the three commands before it succeed and
  \<^verbatim>\<open>xdotool key Return\<close> fails, the function returns the error of that command as it
  is: the source ends the branch with \<^verbatim>\<open>return enterCmd.Run()\<close>, and nothing is put
  around the failure.
\<close>

theorem enter_failure_counterexample:
  "failure (sys_fail [''xdotool'', ''key'', ''Return''] ''exit status 1''
      [[''pgrep'', ''firefox''],
       [''xdotool'', ''search'', ''--onlyvisible'', ''--class'', ''Firefox'', ''windowactivate''],
       [''xdotool'', ''key'', ''ctrl+l''],
       [''xdotool'', ''type'', ''--clearmodifiers'', ''https://example.com'']]
      [''xdotool'', ''key'', ''Return'']) = Some ''exit status 1''
   \<and> updateFirefoxURL ''linux'' (sys_fail [''xdotool'', ''key'', ''Return''] ''exit status 1'')
        ''https://example.com'' [] =
      (Some ''exit status 1'',
       [[''pgrep'', ''firefox''],
        [''xdotool'', ''search'', ''--onlyvisible'', ''--class'', ''Firefox'', ''windowactivate''],
        [''xdotool'', ''key'', ''ctrl+l''],
        [''xdotool'', ''type'', ''--clearmodifiers'', ''https://example.com''],
        [''xdotool'', ''key'', ''Return'']])"
  by (simp add: updateFirefoxURL_def Run_def sys_fail_def linux_command_defs)

text \<open>
  C6, amended.  On linux, when \<^verbatim>\<open>pgrep firefox\<close> succeeds, the function runs
  \<^verbatim>\<open>xdotool search --onlyvisible --class Firefox windowactivate\<close>,
  \<^verbatim>\<open>xdotool key ctrl+l\<close>, \<^verbatim>\<open>xdotool type --clearmodifiers\<close> with the URL and
  \<^verbatim>\<open>xdotool key Return\<close>, in this order and with nothing in between, each one as soon
  as the one before it has succeeded.  The first of them to fail ends the function, and
  no later command is run.  A failure of the first, second or third command is returned
  behind "failed to focus Firefox window: ", "failed to select address bar: " or
  "failed to type URL: "; a failure of the fourth is returned unchanged.  When all four
  succeed the function returns no error.
\<close>

theorem linux_steps_in_order:
  assumes running: "failure (sys tr [''pgrep'', ''firefox'']) = None"
  shows
    "let check = [''pgrep'', ''firefox''];
         focus = [''xdotool'', ''search'', ''--onlyvisible'', ''--class'', ''Firefox'', ''windowactivate''];
         select = [''xdotool'', ''key'', ''ctrl+l''];
         type = [''xdotool'', ''type'', ''--clearmodifiers'', url];
         enter = [''xdotool'', ''key'', ''Return''];
         focused = failure (sys (tr @ [check]) focus);
         selected = failure (sys (tr @ [check, focus]) select);
         typed = failure (sys (tr @ [check, focus, select]) type);
         entered = failure (sys (tr @ [check, focus, select, type]) enter)
     in (\<forall>e. focused = Some e \<longrightarrow>
           updateFirefoxURL ''linux'' sys url tr =
             (Some (''failed to focus Firefox window: '' @ e), tr @ [check, focus]))
      \<and> (\<forall>e. focused = None \<and> selected = Some e \<longrightarrow>
           updateFirefoxURL ''linux'' sys url tr =
             (Some (''failed to select address bar: '' @ e), tr @ [check, focus, select]))
      \<and> (\<forall>e. focused = None \<and> selected = None \<and> typed = Some e \<longrightarrow>
           updateFirefoxURL ''linux'' sys url tr =
             (Some (''failed to type URL: '' @ e), tr @ [check, focus, select, type]))
      \<and> (\<forall>e. focused = None \<and> selected = None \<and> typed = None \<and> entered = Some e \<longrightarrow>
           updateFirefoxURL ''linux'' sys url tr =
             (Some e, tr @ [check, focus, select, type, enter]))
      \<and> (focused = None \<and> selected = None \<and> typed = None \<and> entered = None \<longrightarrow>
           updateFirefoxURL ''linux'' sys url tr =
             (None, tr @ [check, focus, select, type, enter]))"
proof -
  from running have check: "failure (sys tr checkCmd) = None"
    by (simp add: checkCmd_def)
  have unfolded: "updateFirefoxURL ''linux'' sys url tr =
      (case failure (sys (tr @ [checkCmd]) focusCmd) of
         Some e \<Rightarrow> (Some (''failed to focus Firefox window: '' @ e), tr @ [checkCmd, focusCmd])
       | None \<Rightarrow>
         (case failure (sys (tr @ [checkCmd, focusCmd]) selectCmd) of
            Some e \<Rightarrow>
              (Some (''failed to select address bar: '' @ e), tr @ [checkCmd, focusCmd, selectCmd])
          | None \<Rightarrow>
            (case failure (sys (tr @ [checkCmd, focusCmd, selectCmd]) (typeCmd url)) of
               Some e \<Rightarrow>
                 (Some (''failed to type URL: '' @ e),
                  tr @ [checkCmd, focusCmd, selectCmd, typeCmd url])
             | None \<Rightarrow>
                 (failure (sys (tr @ [checkCmd, focusCmd, selectCmd, typeCmd url]) enterCmd),
                  tr @ [checkCmd, focusCmd, selectCmd, typeCmd url, enterCmd]))))"
    using check by (simp add: updateFirefoxURL_def Run_def split: option.splits)
  show ?thesis
    unfolding Let_def unfolded
    by (simp add: linux_command_defs)
qed

theorem linux_steps_in_order_witness:
  "failure (sys_fail [''xdotool'', ''type'', ''--clearmodifiers'', ''https://example.com''] ''exit status 1''
      [] [''pgrep'', ''firefox'']) = None
   \<and> failure (sys_fail [''xdotool'', ''type'', ''--clearmodifiers'', ''https://example.com''] ''exit status 1''
      [[''pgrep'', ''firefox'']]
      [''xdotool'', ''search'', ''--onlyvisible'', ''--class'', ''Firefox'', ''windowactivate'']) = None
   \<and> failure (sys_fail [''xdotool'', ''type'', ''--clearmodifiers'', ''https://example.com''] ''exit status 1''
      [[''pgrep'', ''firefox''],
       [''xdotool'', ''search'', ''--onlyvisible'', ''--class'', ''Firefox'', ''windowactivate'']]
      [''xdotool'', ''key'', ''ctrl+l'']) = None
   \<and> failure (sys_fail [''xdotool'', ''type'', ''--clearmodifiers'', ''https://example.com''] ''exit status 1''
      [[''pgrep'', ''firefox''],
       [''xdotool'', ''search'', ''--onlyvisible'', ''--class'', ''Firefox'', ''windowactivate''],
       [''xdotool'', ''key'', ''ctrl+l'']]
      [''xdotool'', ''type'', ''--clearmodifiers'', ''https://example.com'']) = Some ''exit status 1''
   \<and> updateFirefoxURL ''linux''
        (sys_fail [''xdotool'', ''type'', ''--clearmodifiers'', ''https://example.com''] ''exit status 1'')
        ''https://example.com'' [] =
      (Some ''failed to type URL: exit status 1'',
       [[''pgrep'', ''firefox''],
        [''xdotool'', ''search'', ''--onlyvisible'', ''--class'', ''Firefox'', ''windowactivate''],
        [''xdotool'', ''key'', ''ctrl+l''],
        [''xdotool'', ''type'', ''--clearmodifiers'', ''https://example.com'']])"
  using linux_steps_in_order
    [of "sys_fail [''xdotool'', ''type'', ''--clearmodifiers'', ''https://example.com''] ''exit status 1''"
        "[]" "''https://example.com''"]
  by (simp add: sys_fail_def Let_def)


text \<open>
  C8.  On linux, when the process check fails, and on windows, when the process list
  does not mention \<^verbatim>\<open>firefox.exe\<close>, the function runs one more command, which launches
  the browser with the URL as its last argument, and returns the result of that command.
\<close>

theorem launch_when_not_running:
  "(failure (sys tr [''pgrep'', ''firefox'']) \<noteq> None \<longrightarrow>
      updateFirefoxURL ''linux'' sys url tr =
        (failure (sys (tr @ [[''pgrep'', ''firefox'']]) [''firefox'', url]),
         tr @ [[''pgrep'', ''firefox''], [''firefox'', url]]))
   \<and> (\<not> Contains (stdout (sys tr tasklistCmd)) ''firefox.exe'' \<longrightarrow>
      updateFirefoxURL ''windows'' sys url tr =
        (failure (sys (tr @ [tasklistCmd]) [''cmd'', ''/C'', ''start'', ''firefox.exe'', url]),
         tr @ [tasklistCmd, [''cmd'', ''/C'', ''start'', ''firefox.exe'', url]]))"
proof (intro conjI impI)
  assume "failure (sys tr [''pgrep'', ''firefox'']) \<noteq> None"
  then obtain e where "failure (sys tr checkCmd) = Some e"
    by (auto simp: checkCmd_def)
  then show "updateFirefoxURL ''linux'' sys url tr =
      (failure (sys (tr @ [[''pgrep'', ''firefox'']]) [''firefox'', url]),
       tr @ [[''pgrep'', ''firefox''], [''firefox'', url]])"
    by (simp add: updateFirefoxURL_def Run_def checkCmd_def)
next
  assume "\<not> Contains (stdout (sys tr tasklistCmd)) ''firefox.exe''"
  then show "updateFirefoxURL ''windows'' sys url tr =
      (failure (sys (tr @ [tasklistCmd]) [''cmd'', ''/C'', ''start'', ''firefox.exe'', url]),
       tr @ [tasklistCmd, [''cmd'', ''/C'', ''start'', ''firefox.exe'', url]])"
    by (simp add: updateFirefoxURL_def Run_def Output_def startCmd_def)
qed

theorem launch_when_not_running_witness:
  "failure (sys_fail [''pgrep'', ''firefox''] ''exit status 1'' [] [''pgrep'', ''firefox'']) \<noteq> None
   \<and> updateFirefoxURL ''linux'' (sys_fail [''pgrep'', ''firefox''] ''exit status 1'') ''https://example.com'' [] =
        (None, [[''pgrep'', ''firefox''], [''firefox'', ''https://example.com'']])
   \<and> \<not> Contains (stdout (sys_fail [''pgrep'', ''firefox''] ''exit status 1'' [] tasklistCmd)) ''firefox.exe''
   \<and> updateFirefoxURL ''windows'' (sys_fail [''pgrep'', ''firefox''] ''exit status 1'') ''https://example.com'' [] =
        (None, [tasklistCmd, [''cmd'', ''/C'', ''start'', ''firefox.exe'', ''https://example.com'']])"
  using launch_when_not_running
    [of "sys_fail [''pgrep'', ''firefox''] ''exit status 1''" "[]" "''https://example.com''"]
  by (simp add: sys_fail_def tasklistCmd_def)

end
